theory Spec2Isabelle
  imports Complex_Main "HOL-Library.Multiset"
begin

section \<open>Values\<close>

text \<open>
  The server is JavaScript. A JavaScript number is an IEEE 754 double: a \<open>number\<close> is a
  finite value, one of the two infinities or \<open>NaN\<close>. A finite value is held as the real
  it denotes, and the two zeros are one value: the program never divides by a zero
  (lemma \<open>cosineSim_denom\<close>) and \<open>JSON.stringify\<close> writes both as \<open>0\<close>, so nothing it
  answers tells them apart. A string is the list of its UTF-8 bytes. \<open>jsval\<close> is what
  \<open>JSON.parse\<close> can return, together with \<open>undefined\<close> for a property that is absent.

  The feature encoder, the suggestion generator and the vector composer are stated on
  the typed data of the specification, with the reals for its finite numbers; the
  metric synthesizer, the cosine similarity, the ranker and the request handler are
  stated in binary64 arithmetic, where overflow, \<open>NaN\<close> and the rounding of each
  operation decide what the code returns.
\<close>

datatype number = Fin real | PInf | NInf | NaN

datatype jsval =
    JUndefined
  | JNull
  | JBool bool
  | JNum number
  | JStr string
  | JArr "jsval list"
  | JObj "(string \<times> jsval) list"

section \<open>Binary64 arithmetic\<close>

text \<open>
  Rounding to the nearest double, a tie to the even significand. \<open>rne\<close> rounds a real
  to the nearest integer, a tie to the even one. \<open>exponent x\<close> is the exponent of the
  binade of \<open>x\<close>, at least \<open>-1022\<close>, where the subnormal numbers begin, and \<open>ulp x\<close> is the
  spacing of the doubles there, 52 binary places below. \<open>fl x\<close> is the multiple of
  \<open>ulp x\<close> nearest to \<open>x\<close>, with no bound on the exponent; \<open>round_number\<close> is the result
  of an operation whose exact value is \<open>x\<close>: an infinity once \<open>fl x\<close> reaches \<open>2 ^ 1024\<close>.
\<close>

definition rne :: "real \<Rightarrow> int" where
  "rne q =
     (let f = \<lfloor>q\<rfloor>; d = q - of_int f
      in if d < 1 / 2 then f else if 1 / 2 < d then f + 1 else if even f then f else f + 1)"

definition exponent :: "real \<Rightarrow> int" where
  "exponent x = (if x = 0 then - 1022 else max (- 1022) \<lfloor>log 2 \<bar>x\<bar>\<rfloor>)"

definition ulp :: "real \<Rightarrow> real" where
  "ulp x = 2 powi (exponent x - 52)"

definition fl :: "real \<Rightarrow> real" where
  "fl x = of_int (rne (x / ulp x)) * ulp x"

definition huge :: real where
  "huge = 2 powi 1024"

definition round_number :: "real \<Rightarrow> number" where
  "round_number x =
     (if huge \<le> fl x then PInf
      else if fl x \<le> - huge then NInf
      else Fin (fl x))"

text \<open>
  The operators \<open>+\<close>, \<open>-\<close>, \<open>*\<close>, \<open>/\<close> and \<open><=\<close> on numbers, and \<open>Math.sqrt\<close>, \<open>Math.min\<close>
  and \<open>Math.max\<close>. \<open>NaN\<close> is absorbing, and so are the undefined forms
  \<open>Infinity - Infinity\<close>, \<open>0 * Infinity\<close>, \<open>0 / 0\<close> and \<open>Infinity / Infinity\<close>. A quotient by
  zero has the sign it has for the zero \<open>+0\<close>.
\<close>

fun negate :: "number \<Rightarrow> number" where
  "negate (Fin x) = Fin (- x)"
| "negate PInf = NInf"
| "negate NInf = PInf"
| "negate NaN = NaN"

fun js_add :: "number \<Rightarrow> number \<Rightarrow> number" where
  "js_add (Fin x) (Fin y) = round_number (x + y)"
| "js_add NaN y = NaN"
| "js_add x NaN = NaN"
| "js_add PInf NInf = NaN"
| "js_add NInf PInf = NaN"
| "js_add PInf y = PInf"
| "js_add x PInf = PInf"
| "js_add NInf y = NInf"
| "js_add x NInf = NInf"

definition js_sub :: "number \<Rightarrow> number \<Rightarrow> number" where
  "js_sub x y = js_add x (negate y)"

fun js_mul :: "number \<Rightarrow> number \<Rightarrow> number" where
  "js_mul (Fin x) (Fin y) = round_number (x * y)"
| "js_mul NaN y = NaN"
| "js_mul x NaN = NaN"
| "js_mul (Fin x) PInf = (if x = 0 then NaN else if 0 < x then PInf else NInf)"
| "js_mul (Fin x) NInf = (if x = 0 then NaN else if 0 < x then NInf else PInf)"
| "js_mul PInf (Fin y) = (if y = 0 then NaN else if 0 < y then PInf else NInf)"
| "js_mul NInf (Fin y) = (if y = 0 then NaN else if 0 < y then NInf else PInf)"
| "js_mul PInf PInf = PInf"
| "js_mul PInf NInf = NInf"
| "js_mul NInf PInf = NInf"
| "js_mul NInf NInf = PInf"

fun js_div :: "number \<Rightarrow> number \<Rightarrow> number" where
  "js_div (Fin x) (Fin y) =
     (if y = 0 then (if x = 0 then NaN else if 0 < x then PInf else NInf)
      else round_number (x / y))"
| "js_div NaN y = NaN"
| "js_div x NaN = NaN"
| "js_div (Fin x) PInf = Fin 0"
| "js_div (Fin x) NInf = Fin 0"
| "js_div PInf (Fin y) = (if 0 \<le> y then PInf else NInf)"
| "js_div NInf (Fin y) = (if 0 \<le> y then NInf else PInf)"
| "js_div PInf PInf = NaN"
| "js_div PInf NInf = NaN"
| "js_div NInf PInf = NaN"
| "js_div NInf NInf = NaN"

fun js_le :: "number \<Rightarrow> number \<Rightarrow> bool" where
  "js_le (Fin x) (Fin y) = (x \<le> y)"
| "js_le NaN y = False"
| "js_le x NaN = False"
| "js_le NInf y = True"
| "js_le x PInf = True"
| "js_le PInf y = False"
| "js_le x NInf = False"

fun Math_sqrt :: "number \<Rightarrow> number" where
  "Math_sqrt (Fin x) = (if x < 0 then NaN else Fin (fl (sqrt x)))"
| "Math_sqrt PInf = PInf"
| "Math_sqrt NInf = NaN"
| "Math_sqrt NaN = NaN"

definition Math_max :: "number \<Rightarrow> number \<Rightarrow> number" where
  "Math_max x y = (if x = NaN \<or> y = NaN then NaN else if js_le x y then y else x)"

definition Math_min :: "number \<Rightarrow> number \<Rightarrow> number" where
  "Math_min x y = (if x = NaN \<or> y = NaN then NaN else if js_le x y then x else y)"

section \<open>Feature encoder\<close>

text \<open>
  The argument of \<open>extractFeatures\<close>, after destructuring: \<open>height_cm\<close> and \<open>age\<close> are
  numbers, \<open>dominant_foot\<close> and \<open>position\<close> are any value (they are only compared with
  \<open>===\<close>), and each of the four skill scores is \<open>None\<close> when the property is
  \<open>undefined\<close>, where the parameter default \<open>0.6\<close> applies.
\<close>

record PlayerAttributes =
  height_cm :: real
  dominant_foot :: jsval
  position :: jsval
  age :: real
  pace :: "real option"
  dribbling :: "real option"
  passing :: "real option"
  shooting :: "real option"

definition param_default :: "real option \<Rightarrow> real \<Rightarrow> real" where
  "param_default v d = (case v of None \<Rightarrow> d | Some x \<Rightarrow> x)"

definition posMap :: "string list" where
  "posMap = [''winger'', ''striker'', ''midfielder'', ''defender'', ''goalkeeper'']"

definition extractFeatures :: "PlayerAttributes \<Rightarrow> real list" where
  "extractFeatures attrs =
     (let footR = (if dominant_foot attrs = JStr ''right'' then 1 else 0);
          footL = (if dominant_foot attrs = JStr ''left'' then 1 else 0);
          footTwo = (if dominant_foot attrs = JStr ''two-footed'' then 1 else 0);
          posVec = map (\<lambda>p. if JStr p = position attrs then 1 else 0) posMap;
          h = min (max ((height_cm attrs - 150) / 50) 0) 1;
          a = min (max ((age attrs - 12) / 20) 0) 1
      in [h, a,
          param_default (pace attrs) (6 / 10),
          param_default (dribbling attrs) (6 / 10),
          param_default (passing attrs) (6 / 10),
          param_default (shooting attrs) (6 / 10),
          footR, footL, footTwo] @ posVec)"

text \<open>The request of the specification's end-to-end example.\<close>

definition example_attrs :: PlayerAttributes where
  "example_attrs =
     \<lparr>height_cm = 180, dominant_foot = JStr ''right'', position = JStr ''striker'',
      age = 22, pace = None, dribbling = None, passing = None, shooting = None\<rparr>"

section \<open>Metric synthesizer\<close>

text \<open>
  \<open>Math.round\<close> rounds to the nearest integer, a tie towards plus infinity.
  \<open>analyzeVideoMock\<close> calls \<open>Math.random\<close> four times; the four draws are its
  arguments here, in the order of the calls. A draw is a double in \<open>[0, 1)\<close>, so no
  product and no sum overflows: each is \<open>fl\<close> of its exact value, and \<open>Math.round\<close> is
  applied to the double the sum is rounded to.
\<close>

record Metrics =
  kneeFlex :: real
  bodyLean :: real
  sprintTempo :: real
  touches :: real

definition Math_round :: "real \<Rightarrow> real" where
  "Math_round x = of_int \<lfloor>x + 1 / 2\<rfloor>"

definition analyzeVideoMock :: "real \<Rightarrow> real \<Rightarrow> real \<Rightarrow> real \<Rightarrow> Metrics" where
  "analyzeVideoMock r1 r2 r3 r4 =
     \<lparr>kneeFlex = Math_round (fl (30 + fl (r1 * 60))),
      bodyLean = Math_round (fl (5 + fl (r2 * 25))),
      sprintTempo = Math_round (fl (140 + fl (r3 * 60))),
      touches = Math_round (fl (10 + fl (r4 * 25)))\<rparr>"

section \<open>Suggestion generator\<close>

text \<open>The five message texts; the dashes of the source are their UTF-8 bytes.\<close>

definition suggestion_knee :: string where
  "suggestion_knee =
     ''Increase knee flexion during acceleration to improve power (add wall-sit holds and mini-hurdles).''"

definition suggestion_lean :: string where
  "suggestion_lean =
     ''Add forward body-lean on first 2'' @ [CHR 0xE2, CHR 0x80, CHR 0x93] @
     ''3 steps; try '' @ [CHR 0x27] @ ''lean & go'' @ [CHR 0x27] @ '' resisted sprints.''"

definition suggestion_tempo :: string where
  "suggestion_tempo =
     ''Improve step cadence with 10m fast-feet ladders and 5x10m accelerations.''"

definition suggestion_touches :: string where
  "suggestion_touches =
     ''Raise ball-contact frequency; 3x2min tight touches and V-pulls.''"

definition suggestion_fallback :: string where
  "suggestion_fallback =
     ''Great base mechanics'' @ [CHR 0xE2, CHR 0x80, CHR 0x94] @
     ''progress to position-specific drills and resisted sprints.''"

text \<open>\<open>out.push(s)\<close> appends to the array \<open>out\<close>.\<close>

definition push :: "'a list \<Rightarrow> 'a \<Rightarrow> 'a list" where
  "push out s = out @ [s]"

definition suggestionsFromMetrics :: "Metrics \<Rightarrow> string list" where
  "suggestionsFromMetrics m =
     (let out = [];
          out = (if kneeFlex m < 50 then push out suggestion_knee else out);
          out = (if bodyLean m < 10 then push out suggestion_lean else out);
          out = (if sprintTempo m < 160 then push out suggestion_tempo else out);
          out = (if touches m < 15 then push out suggestion_touches else out);
          out = (if length out = 0 then push out suggestion_fallback else out)
      in out)"

section \<open>Vector composer\<close>

definition metricVec :: "Metrics \<Rightarrow> real list" where
  "metricVec metrics =
     [min (kneeFlex metrics / 120) 1,
      min (bodyLean metrics / 45) 1,
      min (sprintTempo metrics / 220) 1,
      min (touches metrics / 60) 1]"

text \<open>\<open>feats.concat(metricVec)\<close>, with \<open>metricVec\<close> built from the metrics.\<close>

definition playerVec :: "real list \<Rightarrow> Metrics \<Rightarrow> real list" where
  "playerVec feats metrics = feats @ metricVec metrics"

section \<open>Cosine similarity\<close>

text \<open>
  \<open>elem xs i\<close> is the operand \<open>xs[i]\<close> of a product: past the end of the array it is
  \<open>undefined\<close>, which the product converts to \<open>NaN\<close>. The literal \<open>1e-9\<close> is the double
  nearest to \<open>1 / 10 ^ 9\<close>.
\<close>

definition elem :: "number list \<Rightarrow> nat \<Rightarrow> number" where
  "elem xs i = (if i < length xs then xs ! i else NaN)"

text \<open>The \<open>for\<close> loop of \<open>cosineSim\<close>, from index \<open>i\<close>, on the accumulators \<open>(dot, na, nb)\<close>.\<close>

function cosineSim_loop ::
  "number list \<Rightarrow> number list \<Rightarrow> nat \<Rightarrow> number \<times> number \<times> number \<Rightarrow> number \<times> number \<times> number"
where
  "cosineSim_loop a b i (dot, na, nb) =
     (if i < length a
      then cosineSim_loop a b (Suc i)
             (js_add dot (js_mul (elem a i) (elem b i)),
              js_add na (js_mul (elem a i) (elem a i)),
              js_add nb (js_mul (elem b i) (elem b i)))
      else (dot, na, nb))"
  by pat_completeness auto
termination
  by (relation "measure (\<lambda>(a, b, i, acc). length a - i)") auto

declare cosineSim_loop.simps [simp del]

definition cosineSim :: "number list \<Rightarrow> number list \<Rightarrow> number" where
  "cosineSim a b =
     (case cosineSim_loop a b 0 (Fin 0, Fin 0, Fin 0) of
        (dot, na, nb) \<Rightarrow>
          let denom = js_add (js_mul (Math_sqrt na) (Math_sqrt nb)) (round_number (1 / 10 ^ 9))
          in js_div dot denom)"




section \<open>Similarity ranker\<close>

text \<open>
  A roster entry of \<open>pros.json\<close>, and an entry of the ranking. The roster itself is a
  parameter: the file is read at start-up and is not part of the program text.
\<close>

record ProReference =
  name :: string
  position :: string
  club :: string
  features :: "number list"

record RankedMatch =
  name :: string
  position :: string
  club :: string
  similarity :: number

definition score :: "number list \<Rightarrow> ProReference \<Rightarrow> RankedMatch" where
  "score pv p =
     (let sim = cosineSim pv (features p)
      in \<lparr>name = ProReference.name p, position = ProReference.position p,
          club = ProReference.club p, similarity = sim\<rparr>)"

text \<open>The comparator \<open>(a,b) => b.similarity - a.similarity\<close>.\<close>

definition compareFn :: "RankedMatch \<Rightarrow> RankedMatch \<Rightarrow> number" where
  "compareFn a b = js_sub (similarity b) (similarity a)"

text \<open>
  \<open>Array.prototype.sort\<close>: the comparator's result is read with \<open>NaN\<close> as \<open>0\<close>, and the
  sort is stable. It is modelled as the stable insertion sort. Where the comparator is
  a consistent ordering every stable sort returns the same array (lemma
  \<open>descending_unique\<close>); where it is not, which is when a similarity is \<open>NaN\<close>, ECMA-262
  leaves the order to the engine.
\<close>

definition SortCompare :: "('a \<Rightarrow> 'a \<Rightarrow> number) \<Rightarrow> 'a \<Rightarrow> 'a \<Rightarrow> number" where
  "SortCompare comparefn x y = (case comparefn x y of NaN \<Rightarrow> Fin 0 | v \<Rightarrow> v)"

fun sort_insert :: "('a \<Rightarrow> 'a \<Rightarrow> number) \<Rightarrow> 'a \<Rightarrow> 'a list \<Rightarrow> 'a list" where
  "sort_insert comparefn x [] = [x]"
| "sort_insert comparefn x (y # ys) =
     (if js_le (SortCompare comparefn x y) (Fin 0) then x # y # ys
      else y # sort_insert comparefn x ys)"

fun Array_sort :: "('a \<Rightarrow> 'a \<Rightarrow> number) \<Rightarrow> 'a list \<Rightarrow> 'a list" where
  "Array_sort comparefn [] = []"
| "Array_sort comparefn (x # xs) = sort_insert comparefn x (Array_sort comparefn xs)"

definition ranked :: "number list \<Rightarrow> ProReference list \<Rightarrow> RankedMatch list" where
  "ranked pv pros = Array_sort compareFn (map (score pv) pros)"

text \<open>\<open>ranked.slice(0, 5)\<close>.\<close>

definition top :: "number list \<Rightarrow> ProReference list \<Rightarrow> RankedMatch list" where
  "top pv pros = take 5 (ranked pv pros)"

section \<open>JSON texts\<close>

text \<open>
  \<open>JSON.parse\<close> on a string: it throws \<open>SyntaxError\<close> unless the text is one JSON value,
  with white space allowed around every token. The text is cut into tokens first. In
  a string literal only the two-character escapes and \<open>\uXXXX\<close> are escapes, and a
  control character is an error. \<open>\uXXXX\<close> gives the UTF-8 bytes of that code unit; the
  escape of a high surrogate followed at once by the escape of a low surrogate gives
  the four bytes of the code point the pair encodes. A number literal denotes the
  double nearest to its decimal value.
\<close>

datatype js_error = SyntaxError | TypeError | FsError

datatype token =
    TLBrace | TRBrace | TLBracket | TRBracket | TColon | TComma
  | TString string | TNumber real | TTrue | TFalse | TNull

definition is_ws :: "char \<Rightarrow> bool" where
  "is_ws c = (c = CHR 0x20 \<or> c = CHR 0x09 \<or> c = CHR 0x0A \<or> c = CHR 0x0D)"

definition is_digit :: "char \<Rightarrow> bool" where
  "is_digit c = (48 \<le> (of_char c :: nat) \<and> (of_char c :: nat) \<le> 57)"

definition digit_val :: "char \<Rightarrow> nat" where
  "digit_val c = of_char c - 48"

definition decimal :: "string \<Rightarrow> nat" where
  "decimal ds = foldl (\<lambda>n d. 10 * n + digit_val d) 0 ds"

definition hex_val :: "char \<Rightarrow> nat option" where
  "hex_val c =
     (let n = (of_char c :: nat) in
      if 48 \<le> n \<and> n \<le> 57 then Some (n - 48)
      else if 65 \<le> n \<and> n \<le> 70 then Some (n - 55)
      else if 97 \<le> n \<and> n \<le> 102 then Some (n - 87)
      else None)"

definition hex4 :: "string \<Rightarrow> nat option" where
  "hex4 hs =
     (case map hex_val hs of
        [Some a, Some b, Some c, Some d] \<Rightarrow> Some (((a * 16 + b) * 16 + c) * 16 + d)
      | _ \<Rightarrow> None)"

definition utf8 :: "nat \<Rightarrow> string" where
  "utf8 n =
     (if n < 0x80 then [char_of n]
      else if n < 0x800 then [char_of (0xC0 + n div 64), char_of (0x80 + n mod 64)]
      else if n < 0x10000 then
        [char_of (0xE0 + n div 4096), char_of (0x80 + n div 64 mod 64),
         char_of (0x80 + n mod 64)]
      else [char_of (0xF0 + n div 262144), char_of (0x80 + n div 4096 mod 64),
            char_of (0x80 + n div 64 mod 64), char_of (0x80 + n mod 64)])"

text \<open>
  \<open>low_surrogate n cs\<close>: when \<open>n\<close> is a high surrogate and \<open>cs\<close> starts with the escape of a
  low surrogate, the code point of the pair.
\<close>

definition low_surrogate :: "nat \<Rightarrow> string \<Rightarrow> nat option" where
  "low_surrogate n cs =
     (if 0xD800 \<le> n \<and> n < 0xDC00 \<and> take 2 cs = [CHR 0x5C, CHR ''u''] then
        (case hex4 (take 4 (drop 2 cs)) of
           None \<Rightarrow> None
         | Some lo \<Rightarrow>
             if 0xDC00 \<le> lo \<and> lo < 0xE000
             then Some (0x10000 + (n - 0xD800) * 0x400 + (lo - 0xDC00))
             else None)
      else None)"

definition escape :: "char \<Rightarrow> char option" where
  "escape e =
     (if e = CHR 0x22 then Some (CHR 0x22)
      else if e = CHR 0x5C then Some (CHR 0x5C)
      else if e = CHR ''/'' then Some (CHR ''/'')
      else if e = CHR ''b'' then Some (CHR 0x08)
      else if e = CHR ''f'' then Some (CHR 0x0C)
      else if e = CHR ''n'' then Some (CHR 0x0A)
      else if e = CHR ''r'' then Some (CHR 0x0D)
      else if e = CHR ''t'' then Some (CHR 0x09)
      else None)"

definition prepend :: "string \<Rightarrow> (string \<times> string) option \<Rightarrow> (string \<times> string) option" where
  "prepend s r = (case r of None \<Rightarrow> None | Some (t, rest) \<Rightarrow> Some (s @ t, rest))"

fun lex_string :: "string \<Rightarrow> (string \<times> string) option" where
  "lex_string [] = None"
| "lex_string (c # cs) =
     (if c = CHR 0x22 then Some ([], cs)
      else if c = CHR 0x5C then
        (case cs of
           [] \<Rightarrow> None
         | e # cs' \<Rightarrow>
             if e = CHR ''u'' then
               (case hex4 (take 4 cs') of
                  None \<Rightarrow> None
                | Some n \<Rightarrow>
                    (case low_surrogate n (drop 4 cs') of
                       None \<Rightarrow> prepend (utf8 n) (lex_string (drop 4 cs'))
                     | Some cp \<Rightarrow> prepend (utf8 cp) (lex_string (drop 10 cs'))))
             else
               (case escape e of
                  None \<Rightarrow> None
                | Some ch \<Rightarrow> prepend [ch] (lex_string cs')))
      else if (of_char c :: nat) < 0x20 then None
      else prepend [c] (lex_string cs))"

text \<open>The number grammar, \<open>-? int frac? exp?\<close>, one part at a time.\<close>

definition lex_sign :: "string \<Rightarrow> bool \<times> string" where
  "lex_sign cs = (if take 1 cs = ''-'' then (True, drop 1 cs) else (False, cs))"

definition lex_int :: "string \<Rightarrow> (nat \<times> string) option" where
  "lex_int cs =
     (if take 1 cs = ''0'' then Some (0, drop 1 cs)
      else if takeWhile is_digit cs = [] then None
      else Some (decimal (takeWhile is_digit cs), dropWhile is_digit cs))"

definition lex_frac :: "string \<Rightarrow> (real \<times> string) option" where
  "lex_frac cs =
     (if take 1 cs = ''.'' then
        (let ds = takeWhile is_digit (drop 1 cs)
         in if ds = [] then None
            else Some (real (decimal ds) / 10 ^ length ds, dropWhile is_digit (drop 1 cs)))
      else Some (0, cs))"

definition lex_exp :: "string \<Rightarrow> (int \<times> string) option" where
  "lex_exp cs =
     (if take 1 cs = ''e'' \<or> take 1 cs = ''E'' then
        (let (neg, cs') =
               (if take 1 (drop 1 cs) = ''-'' then (True, drop 2 cs)
                else if take 1 (drop 1 cs) = ''+'' then (False, drop 2 cs)
                else (False, drop 1 cs));
             ds = takeWhile is_digit cs'
         in if ds = [] then None
            else Some (if neg then - int (decimal ds) else int (decimal ds),
                       dropWhile is_digit cs'))
      else Some (0, cs))"

definition pow10 :: "int \<Rightarrow> real" where
  "pow10 e = (if 0 \<le> e then 10 ^ nat e else 1 / 10 ^ nat (- e))"

definition lex_number :: "string \<Rightarrow> (real \<times> string) option" where
  "lex_number cs =
     (case lex_sign cs of
        (neg, cs1) \<Rightarrow>
          (case lex_int cs1 of
             None \<Rightarrow> None
           | Some (ip, cs2) \<Rightarrow>
               (case lex_frac cs2 of
                  None \<Rightarrow> None
                | Some (fp, cs3) \<Rightarrow>
                    (case lex_exp cs3 of
                       None \<Rightarrow> None
                     | Some (e, cs4) \<Rightarrow>
                         Some ((if neg then - 1 else 1) * (real ip + fp) * pow10 e, cs4)))))"

lemma prepend_shorter:
  "prepend s r = Some (t, rest) \<Longrightarrow> \<exists>t'. r = Some (t', rest)"
  by (auto simp: prepend_def split: option.splits)

lemma lex_string_shorter: "lex_string cs = Some (s, rest) \<Longrightarrow> length rest < length cs"
proof (induction cs arbitrary: s rule: lex_string.induct)
  case 1
  then show ?case by simp
next
  case (2 c cs)
  show ?case
    using "2.prems" "2.IH"
    by (fastforce split: if_splits list.splits option.splits dest!: prepend_shorter)
qed

lemma lex_sign_shorter: "lex_sign cs = (neg, rest) \<Longrightarrow> length rest \<le> length cs"
  by (auto simp: lex_sign_def split: if_splits)

lemma length_dropWhile_less:
  "takeWhile P xs \<noteq> [] \<Longrightarrow> length (dropWhile P xs) < length xs"
  by (cases xs) (auto simp: length_dropWhile_le le_imp_less_Suc split: if_splits)

lemma lex_int_shorter: "lex_int cs = Some (n, rest) \<Longrightarrow> length rest < length cs"
  using length_dropWhile_less [of is_digit cs]
  by (cases cs) (auto simp: lex_int_def split: if_splits)

lemma lex_frac_shorter: "lex_frac cs = Some (x, rest) \<Longrightarrow> length rest \<le> length cs"
  using length_dropWhile_le [of is_digit "drop 1 cs"]
  by (auto simp: lex_frac_def Let_def split: if_splits)

lemma lex_exp_shorter: "lex_exp cs = Some (e, rest) \<Longrightarrow> length rest \<le> length cs"
  using length_dropWhile_le [of is_digit "drop 1 cs"] length_dropWhile_le [of is_digit "drop 2 cs"]
  by (auto simp: lex_exp_def Let_def split: if_splits)

lemma lex_number_shorter: "lex_number cs = Some (x, rest) \<Longrightarrow> length rest < length cs"
  unfolding lex_number_def
  by (auto split: prod.splits option.splits
      dest!: lex_sign_shorter lex_int_shorter lex_frac_shorter lex_exp_shorter)

definition cons_token :: "token \<Rightarrow> token list option \<Rightarrow> token list option" where
  "cons_token t r = map_option ((#) t) r"

function lex :: "string \<Rightarrow> token list option" where
  "lex [] = Some []"
| "lex (c # cs) =
     (if is_ws c then lex cs
      else if c = CHR ''{'' then cons_token TLBrace (lex cs)
      else if c = CHR ''}'' then cons_token TRBrace (lex cs)
      else if c = CHR ''['' then cons_token TLBracket (lex cs)
      else if c = CHR '']'' then cons_token TRBracket (lex cs)
      else if c = CHR '':'' then cons_token TColon (lex cs)
      else if c = CHR '','' then cons_token TComma (lex cs)
      else if c = CHR 0x22 then
        (case lex_string cs of
           None \<Rightarrow> None
         | Some (s, rest) \<Rightarrow> cons_token (TString s) (lex rest))
      else if c = CHR ''-'' \<or> is_digit c then
        (case lex_number (c # cs) of
           None \<Rightarrow> None
         | Some (x, rest) \<Rightarrow> cons_token (TNumber x) (lex rest))
      else if take 4 (c # cs) = ''true'' then cons_token TTrue (lex (drop 3 cs))
      else if take 5 (c # cs) = ''false'' then cons_token TFalse (lex (drop 4 cs))
      else if take 4 (c # cs) = ''null'' then cons_token TNull (lex (drop 3 cs))
      else None)"
  by pat_completeness auto
termination
proof (relation "measure length")
  fix c cs x2 s rest
  assume "lex_string cs = Some x2" and "(s, rest) = x2"
  then have "length rest < length cs"
    using lex_string_shorter [of cs s rest] by simp
  then show "(rest, c # cs) \<in> measure length" by simp
next
  fix c cs x2 x rest
  assume "lex_number (c # cs) = Some x2" and "(x, rest) = x2"
  then have "length rest < length (c # cs)"
    using lex_number_shorter [of "c # cs" x rest] by simp
  then show "(rest, c # cs) \<in> measure length" by simp
qed simp_all

text \<open>
  The parser reads the tokens with a stack of the arrays and objects that are open:
  \<open>expect_value\<close> where a value must start, \<open>after_value\<close> once a value is complete. An
  object keeps its members in the order of the text.
\<close>

datatype frame = InArray "jsval list" | InObject "(string \<times> jsval) list" string

fun expect_value :: "frame list \<Rightarrow> token list \<Rightarrow> jsval option"
  and after_value :: "jsval \<Rightarrow> frame list \<Rightarrow> token list \<Rightarrow> jsval option"
where
  "expect_value st [] = None"
| "expect_value st (t # ts) =
     (case t of
        TString s \<Rightarrow> after_value (JStr s) st ts
      | TNumber x \<Rightarrow> after_value (JNum (round_number x)) st ts
      | TTrue \<Rightarrow> after_value (JBool True) st ts
      | TFalse \<Rightarrow> after_value (JBool False) st ts
      | TNull \<Rightarrow> after_value JNull st ts
      | TLBracket \<Rightarrow>
          (case ts of
             TRBracket # ts' \<Rightarrow> after_value (JArr []) st ts'
           | _ \<Rightarrow> expect_value (InArray [] # st) ts)
      | TLBrace \<Rightarrow>
          (case ts of
             TRBrace # ts' \<Rightarrow> after_value (JObj []) st ts'
           | TString k # TColon # ts' \<Rightarrow> expect_value (InObject [] k # st) ts'
           | _ \<Rightarrow> None)
      | _ \<Rightarrow> None)"
| "after_value v [] ts = (if ts = [] then Some v else None)"
| "after_value v (InArray acc # st) ts =
     (case ts of
        TComma # ts' \<Rightarrow> expect_value (InArray (acc @ [v]) # st) ts'
      | TRBracket # ts' \<Rightarrow> after_value (JArr (acc @ [v])) st ts'
      | _ \<Rightarrow> None)"
| "after_value v (InObject acc k # st) ts =
     (case ts of
        TComma # TString k' # TColon # ts' \<Rightarrow> expect_value (InObject (acc @ [(k, v)]) k' # st) ts'
      | TRBrace # ts' \<Rightarrow> after_value (JObj (acc @ [(k, v)])) st ts'
      | _ \<Rightarrow> None)"

definition JSON_parse :: "string \<Rightarrow> js_error + jsval" where
  "JSON_parse text =
     (case lex text of
        None \<Rightarrow> Inl SyntaxError
      | Some ts \<Rightarrow>
          (case expect_value [] ts of
             None \<Rightarrow> Inl SyntaxError
           | Some v \<Rightarrow> Inr v))"

section \<open>The handler of POST /analyze\<close>

text \<open>
  Reading a property of a parsed value. The names read here are the eight attribute
  names, which no prototype defines: they are \<open>undefined\<close> unless an object has them as
  its own. \<open>JSON.parse\<close> keeps the last of several members with one name.
\<close>

definition property :: "jsval \<Rightarrow> string \<Rightarrow> jsval" where
  "property v k =
     (case v of
        JObj members \<Rightarrow> (case map_of (rev members) k of None \<Rightarrow> JUndefined | Some x \<Rightarrow> x)
      | _ \<Rightarrow> JUndefined)"

text \<open>
  What the program text does not determine: the four draws of \<open>Math.random\<close>, the
  identifier \<open>uuidv4\<close> returns, the clock, whether the session file can be written, and
  the two conversions between a number and its decimal text, \<open>StringToNumber\<close> and
  \<open>Number::toString\<close> of ECMA-262, which are total functions and are not spelled out
  here.
\<close>

record platform =
  draws :: "real \<times> real \<times> real \<times> real"
  uuid :: string
  now :: string
  fs_ok :: bool
  StringToNumber :: "string \<Rightarrow> number"
  NumberToString :: "number \<Rightarrow> string"

text \<open>
  The handler passes whatever \<open>JSON.parse\<close> returned to \<open>extractFeatures\<close>, and the
  arithmetic operators convert their operands with \<open>ToNumber\<close>: \<open>undefined\<close> is \<open>NaN\<close>,
  \<open>null\<close> is 0, a boolean is 0 or 1, a string is read as a numeric literal, and an array
  or an object is first converted to a string. That conversion looks up the method
  \<open>toString\<close>. An object parsed from JSON that has a member named \<open>toString\<close> holds a
  value there that is no function, so converting it throws \<open>TypeError\<close>; without such
  a member it is \<open>[object Object]\<close>. An array is the strings of its elements joined by
  commas, \<open>null\<close> as the empty string, and throws when converting an element does.
  Nothing else in a parsed value makes a conversion throw.
\<close>

fun throws :: "jsval \<Rightarrow> bool" where
  "throws (JObj members) = (map_of members ''toString'' \<noteq> None)"
| "throws (JArr xs) = list_ex throws xs"
| "throws v = False"

fun join :: "string list \<Rightarrow> string" where
  "join [] = []"
| "join [s] = s"
| "join (s # t # ss) = s @ '','' @ join (t # ss)"

fun ToString :: "platform \<Rightarrow> jsval \<Rightarrow> string" where
  "ToString pf JUndefined = ''undefined''"
| "ToString pf JNull = ''null''"
| "ToString pf (JBool b) = (if b then ''true'' else ''false'')"
| "ToString pf (JNum x) = NumberToString pf x"
| "ToString pf (JStr s) = s"
| "ToString pf (JArr xs) =
     join (map (\<lambda>x. if x = JNull \<or> x = JUndefined then [] else ToString pf x) xs)"
| "ToString pf (JObj members) = ''[object Object]''"

definition ToNumber :: "platform \<Rightarrow> jsval \<Rightarrow> js_error + number" where
  "ToNumber pf v =
     (case v of
        JUndefined \<Rightarrow> Inr NaN
      | JNull \<Rightarrow> Inr (Fin 0)
      | JBool b \<Rightarrow> Inr (Fin (if b then 1 else 0))
      | JNum x \<Rightarrow> Inr x
      | JStr s \<Rightarrow> Inr (StringToNumber pf s)
      | _ \<Rightarrow> if throws v then Inl TypeError else Inr (StringToNumber pf (ToString pf v)))"

fun ToNumbers :: "platform \<Rightarrow> jsval list \<Rightarrow> js_error + number list" where
  "ToNumbers pf [] = Inr []"
| "ToNumbers pf (v # vs) =
     (case ToNumber pf v of
        Inl e \<Rightarrow> Inl e
      | Inr x \<Rightarrow> (case ToNumbers pf vs of Inl e \<Rightarrow> Inl e | Inr xs \<Rightarrow> Inr (x # xs)))"

text \<open>
  \<open>extractFeatures\<close> as the handler calls it, on a parsed value. The destructuring of
  the parameter throws \<open>TypeError\<close> on \<open>null\<close> and reads the eight properties from
  anything else, a skill score that is \<open>undefined\<close> taking the default \<open>0.6\<close>. The two
  subtractions convert \<open>height_cm\<close> and \<open>age\<close> to numbers; the four skill scores enter
  the array as they are.
\<close>

definition default_value :: "jsval \<Rightarrow> jsval \<Rightarrow> jsval" where
  "default_value v d = (if v = JUndefined then d else v)"

definition extractFeatures_json :: "platform \<Rightarrow> jsval \<Rightarrow> js_error + jsval list" where
  "extractFeatures_json pf arg =
     (if arg = JNull \<or> arg = JUndefined then Inl TypeError
      else
        (let footR = JNum (Fin (if property arg ''dominant_foot'' = JStr ''right'' then 1 else 0));
             footL = JNum (Fin (if property arg ''dominant_foot'' = JStr ''left'' then 1 else 0));
             footTwo =
               JNum (Fin (if property arg ''dominant_foot'' = JStr ''two-footed'' then 1 else 0));
             posVec =
               map (\<lambda>p. JNum (Fin (if JStr p = property arg ''position'' then 1 else 0))) posMap
         in (case ToNumber pf (property arg ''height_cm'') of
               Inl e \<Rightarrow> Inl e
             | Inr height \<Rightarrow>
                 (case ToNumber pf (property arg ''age'') of
                    Inl e \<Rightarrow> Inl e
                  | Inr years \<Rightarrow>
                      (let h = Math_min
                                 (Math_max (js_div (js_sub height (Fin 150)) (Fin 50)) (Fin 0))
                                 (Fin 1);
                           a = Math_min
                                 (Math_max (js_div (js_sub years (Fin 12)) (Fin 20)) (Fin 0))
                                 (Fin 1)
                       in Inr ([JNum h, JNum a,
                                default_value (property arg ''pace'') (JNum (round_number (6 / 10))),
                                default_value (property arg ''dribbling'')
                                  (JNum (round_number (6 / 10))),
                                default_value (property arg ''passing'') (JNum (round_number (6 / 10))),
                                default_value (property arg ''shooting'')
                                  (JNum (round_number (6 / 10))),
                                footR, footL, footTwo] @ posVec))))))"

text \<open>The array \<open>metricVec\<close> of the handler, in binary64.\<close>

definition metricVec_binary64 :: "Metrics \<Rightarrow> number list" where
  "metricVec_binary64 metrics =
     [Math_min (js_div (Fin (kneeFlex metrics)) (Fin 120)) (Fin 1),
      Math_min (js_div (Fin (bodyLean metrics)) (Fin 45)) (Fin 1),
      Math_min (js_div (Fin (sprintTempo metrics)) (Fin 220)) (Fin 1),
      Math_min (js_div (Fin (touches metrics)) (Fin 60)) (Fin 1)]"

text \<open>
  Step 4 of the handler, \<open>pros.map(...).sort(...)\<close> and \<open>slice(0, 5)\<close>, on the player
  vector as the handler built it. \<open>cosineSim\<close> converts every entry of the player
  vector with each product it forms, and the conversion of an entry is the same each
  time: here the entries are converted once, when the roster has an entry so that
  \<open>cosineSim\<close> is called at all.
\<close>

definition similar :: "platform \<Rightarrow> jsval list \<Rightarrow> ProReference list \<Rightarrow> js_error + RankedMatch list"
where
  "similar pf pv pros =
     (if pros = [] then Inr []
      else (case ToNumbers pf pv of Inl e \<Rightarrow> Inl e | Inr xs \<Rightarrow> Inr (top xs pros)))"

text \<open>The session record; its field \<open>id\<close> is \<open>session_id\<close> here.\<close>

record Session =
  session_id :: string
  created_at :: string
  attrs :: jsval
  metrics :: Metrics
  similar_players :: "RankedMatch list"

datatype body =
    ErrorBody string
  | AnalysisBody string Metrics "string list" "RankedMatch list"

record response =
  status :: nat
  body :: body

text \<open>
  \<open>fs.writeFileSync\<close> on the session file \<open>sessions/<id>.json\<close>: it throws when the file
  cannot be written.
\<close>

definition writeFileSync ::
  "platform \<Rightarrow> (string \<rightharpoonup> Session) \<Rightarrow> string \<Rightarrow> Session \<Rightarrow> js_error + (string \<rightharpoonup> Session)"
where
  "writeFileSync pf sessions sid record =
     (if fs_ok pf then Inr (sessions(sid \<mapsto> record)) else Inl FsError)"

text \<open>
  The \<open>try\<close> block of the handler, on the \<open>attributes\<close> field of the form (\<open>None\<close> when
  the form has no such field) and the directory of session files: the response it
  sends, or the exception that leaves it.
\<close>

definition try_block ::
  "platform \<Rightarrow> ProReference list \<Rightarrow> (string \<rightharpoonup> Session) \<Rightarrow> string option \<Rightarrow>
   js_error + response \<times> (string \<rightharpoonup> Session)"
where
  "try_block pf pros sessions attrRaw =
     (if attrRaw = None \<or> attrRaw = Some []
      then Inr (\<lparr>status = 400, body = ErrorBody ''Missing attributes''\<rparr>, sessions)
      else
        (case JSON_parse (the attrRaw) of
           Inl e \<Rightarrow> Inl e
         | Inr parsed \<Rightarrow>
             (case extractFeatures_json pf parsed of
                Inl e \<Rightarrow> Inl e
              | Inr feats \<Rightarrow>
                  (let m = (case draws pf of (r1, r2, r3, r4) \<Rightarrow> analyzeVideoMock r1 r2 r3 r4);
                       pv = feats @ map JNum (metricVec_binary64 m)
                   in (case similar pf pv pros of
                         Inl e \<Rightarrow> Inl e
                       | Inr best \<Rightarrow>
                           (let suggestions = suggestionsFromMetrics m;
                                sid = take 8 (uuid pf);
                                record = \<lparr>session_id = sid, created_at = now pf, attrs = parsed,
                                          metrics = m, similar_players = best\<rparr>
                            in (case writeFileSync pf sessions sid record of
                                  Inl e \<Rightarrow> Inl e
                                | Inr sessions' \<Rightarrow>
                                    Inr (\<lparr>status = 200,
                                          body = AnalysisBody sid m suggestions best\<rparr>,
                                         sessions'))))))))"

text \<open>
  The handler: the \<open>catch\<close> clause answers every exception of the \<open>try\<close> block with
  status 500, and the session files are as they were.
\<close>

definition post_analyze ::
  "platform \<Rightarrow> ProReference list \<Rightarrow> (string \<rightharpoonup> Session) \<Rightarrow> string option \<Rightarrow>
   response \<times> (string \<rightharpoonup> Session)"
where
  "post_analyze pf pros sessions attrRaw =
     (case try_block pf pros sessions attrRaw of
        Inl e \<Rightarrow> (\<lparr>status = 500, body = ErrorBody ''Failed to analyze''\<rparr>, sessions)
      | Inr sent \<Rightarrow> sent)"

text \<open>
  A platform for the examples. They convert no string to a number and no number to a
  string, so the two conversions are left trivial.
\<close>

definition example_platform :: platform where
  "example_platform =
     \<lparr>draws = (1 / 2, 1 / 2, 1 / 2, 1 / 2), uuid = ''3f2b8c1e-7a4d-4e5f-9b6a-0c1d2e3f4a5b'',
      now = ''2024-01-01T00:00:00.000Z'', fs_ok = True,
      StringToNumber = (\<lambda>s. NaN), NumberToString = (\<lambda>x. [])\<rparr>"


text \<open>Metrics inside the ranges of the synthesizer, with no threshold met.\<close>

definition example_metrics :: Metrics where
  "example_metrics = \<lparr>kneeFlex = 60, bodyLean = 18, sprintTempo = 170, touches = 22\<rparr>"

text \<open>
  The rule table of the specification: each threshold with its message, in the stated
  order, and the messages of the rules that fire.
\<close>

definition rules :: "((Metrics \<Rightarrow> bool) \<times> string) list" where
  "rules =
     [(\<lambda>m. kneeFlex m < 50, suggestion_knee),
      (\<lambda>m. bodyLean m < 10, suggestion_lean),
      (\<lambda>m. sprintTempo m < 160, suggestion_tempo),
      (\<lambda>m. touches m < 15, suggestion_touches)]"

definition fired :: "Metrics \<Rightarrow> string list" where
  "fired m = map snd (filter (\<lambda>(rule, s). rule m) rules)"


text \<open>
  Every finite double is a multiple of the least positive one, \<open>2 ^ -1074\<close>; an entry
  is comparable when its similarity is such a number or an infinity.
\<close>

fun on_grid :: "number \<Rightarrow> bool" where
  "on_grid (Fin x) = (\<exists>m. x = of_int m * 2 powi (- 1074))"
| "on_grid x = True"





section \<open>Properties of the binary64 arithmetic\<close>

lemma rne_of_int: "rne (of_int n) = n"
  by (simp add: rne_def)

lemma rne_cases: "rne q = \<lfloor>q\<rfloor> \<or> rne q = \<lfloor>q\<rfloor> + 1"
  by (simp add: rne_def Let_def)

lemma rne_near: "\<bar>of_int (rne q) - q\<bar> \<le> 1 / 2"
  unfolding rne_def Let_def by (auto; linarith)

lemma rne_mono:
  assumes "p \<le> q"
  shows "rne p \<le> rne q"
proof (cases "\<lfloor>p\<rfloor> = \<lfloor>q\<rfloor>")
  case True
  with assms show ?thesis
    unfolding rne_def Let_def by auto
next
  case False
  then have "\<lfloor>p\<rfloor> < \<lfloor>q\<rfloor>"
    using assms floor_mono [of p q] by linarith
  moreover have "rne p \<le> \<lfloor>p\<rfloor> + 1" using rne_cases [of p] by linarith
  moreover have "\<lfloor>q\<rfloor> \<le> rne q" using rne_cases [of q] by linarith
  ultimately show ?thesis by linarith
qed

lemma rne_minus: "rne (- q) = - rne q"
proof (cases "q \<in> \<int>")
  case True
  then obtain n where "q = of_int n" by (auto elim: Ints_cases)
  then show ?thesis using rne_of_int [of "- n"] rne_of_int [of n] by simp
next
  case False
  then have ne: "q \<noteq> of_int \<lfloor>q\<rfloor>"
    by (metis Ints_of_int)
  then have frac: "0 < q - of_int \<lfloor>q\<rfloor>" "q - of_int \<lfloor>q\<rfloor> < 1"
    by linarith+
  then have fl: "\<lfloor>- q\<rfloor> = - \<lfloor>q\<rfloor> - 1"
    by (intro floor_unique) simp_all
  show ?thesis
    unfolding rne_def Let_def fl using frac by auto
qed

subsection \<open>Binades\<close>

lemma exponent_upper: "\<bar>x\<bar> < 2 powi (exponent x + 1)"
proof (cases "x = 0")
  case True
  then show ?thesis by simp
next
  case False
  define k where "k = \<lfloor>log 2 \<bar>x\<bar>\<rfloor>"
  have "\<bar>x\<bar> < 2 powr (k + 1)"
    using floor_log_eq_powr_iff [of "\<bar>x\<bar>" 2 k] False by (simp add: k_def)
  also have "\<dots> = 2 powi (k + 1)"
    using powr_real_of_int' [of 2 "k + 1"] by simp
  also have "\<dots> \<le> 2 powi (exponent x + 1)"
    using False by (intro power_int_increasing) (simp_all add: exponent_def k_def)
  finally show ?thesis .
qed

lemma exponent_lower:
  assumes "- 1022 < exponent x"
  shows "2 powi exponent x \<le> \<bar>x\<bar>"
proof -
  define k where "k = \<lfloor>log 2 \<bar>x\<bar>\<rfloor>"
  have x: "x \<noteq> 0" using assms by (auto simp: exponent_def)
  have k: "exponent x = k" using assms x by (simp add: exponent_def k_def)
  have "2 powr k \<le> \<bar>x\<bar>"
    using floor_log_eq_powr_iff [of "\<bar>x\<bar>" 2 k] x by (simp add: k_def)
  then show ?thesis
    using powr_real_of_int' [of 2 k] k by simp
qed

lemma exponent_ge: "- 1022 \<le> exponent x"
  by (simp add: exponent_def)

lemma exponent_zero [simp]: "exponent 0 = - 1022"
  by (simp add: exponent_def)

lemma exponent_eqI:
  assumes "2 powi e \<le> \<bar>x\<bar>" and "\<bar>x\<bar> < 2 powi (e + 1)" and "- 1022 \<le> e"
  shows "exponent x = e"
proof -
  have pos: "0 < \<bar>x\<bar>"
    using assms(1) zero_less_power_int [of "2 :: real" e] by linarith
  have "2 powr e \<le> \<bar>x\<bar>" "\<bar>x\<bar> < 2 powr (e + 1)"
    using assms powr_real_of_int' [of 2 e] powr_real_of_int' [of 2 "e + 1"] by simp_all
  then have "\<lfloor>log 2 \<bar>x\<bar>\<rfloor> = e"
    using floor_log_eq_powr_iff [of "\<bar>x\<bar>" 2 e] pos by simp
  then show ?thesis using assms(3) pos by (auto simp: exponent_def)
qed

lemma exponent_subnormal:
  assumes "\<bar>x\<bar> < 2 powi (- 1022)"
  shows "exponent x = - 1022"
proof (rule ccontr)
  assume "exponent x \<noteq> - 1022"
  then have gt: "- 1022 < exponent x" using exponent_ge [of x] by linarith
  then have "2 powi (- 1022) \<le> (2 :: real) powi exponent x"
    by (intro power_int_increasing) simp_all
  with exponent_lower [OF gt] assms(1) show False by linarith
qed

lemma exponent_minus [simp]: "exponent (- x) = exponent x"
  by (simp add: exponent_def)

lemma exponent_mono:
  assumes "\<bar>x\<bar> \<le> \<bar>y\<bar>"
  shows "exponent x \<le> exponent y"
proof (cases "x = 0")
  case True
  then show ?thesis by (simp add: exponent_ge)
next
  case False
  then have y: "y \<noteq> 0" using assms by auto
  have "log 2 \<bar>x\<bar> \<le> log 2 \<bar>y\<bar>"
    using assms False by simp
  then have "\<lfloor>log 2 \<bar>x\<bar>\<rfloor> \<le> \<lfloor>log 2 \<bar>y\<bar>\<rfloor>"
    by (rule floor_mono)
  then show ?thesis
    using False y by (simp add: exponent_def)
qed

lemma ulp_pos [simp]: "0 < ulp x"
  by (simp add: ulp_def)

lemma ulp_minus [simp]: "ulp (- x) = ulp x"
  by (simp add: ulp_def)

lemma fl_zero [simp]: "fl 0 = 0"
  by (simp add: fl_def rne_def)

lemma fl_minus: "fl (- x) = - fl x"
  by (simp add: fl_def rne_minus)


subsection \<open>Monotonicity\<close>

lemma ulp_nonneg [simp]: "0 \<le> ulp x"
  by (simp add: ulp_def)

lemma ulp_53: "2 powi 53 * ulp x = 2 powi (exponent x + 1)"
  unfolding ulp_def by (subst power_int_add [symmetric]) (simp_all add: add.commute)

lemma ulp_52: "2 powi 52 * ulp x = 2 powi exponent x"
  unfolding ulp_def by (subst power_int_add [symmetric]) simp_all

lemma of_int_rne_le: "q \<le> of_int n \<Longrightarrow> rne q \<le> n"
  using rne_mono [of q "of_int n"] by (simp add: rne_of_int)

lemma of_int_rne_ge: "of_int n \<le> q \<Longrightarrow> n \<le> rne q"
  using rne_mono [of "of_int n" q] by (simp add: rne_of_int)

lemma fl_nonneg: "0 \<le> x \<Longrightarrow> 0 \<le> fl x"
proof -
  assume "0 \<le> x"
  then have "0 \<le> x / ulp x" by (intro divide_nonneg_pos ulp_pos)
  then have "rne 0 \<le> rne (x / ulp x)" by (rule rne_mono)
  then have "0 \<le> rne (x / ulp x)" using rne_of_int [of 0] by simp
  then show ?thesis by (simp add: fl_def)
qed

lemma fl_upper:
  assumes "0 < x"
  shows "fl x \<le> 2 powi (exponent x + 1)"
proof -
  have "x < 2 powi 53 * ulp x"
    unfolding ulp_53 using exponent_upper [of x] assms by simp
  then have "x / ulp x \<le> of_int (2 ^ 53)"
    using ulp_pos [of x] by (simp add: pos_divide_le_eq)
  then have "rne (x / ulp x) \<le> 2 ^ 53"
    by (rule of_int_rne_le)
  then have "of_int (rne (x / ulp x)) \<le> (of_int (2 ^ 53) :: real)"
    by (simp only: of_int_le_iff)
  then have "fl x \<le> 2 powi 53 * ulp x"
    using ulp_pos [of x] by (simp add: fl_def)
  then show ?thesis by (simp only: ulp_53)
qed

lemma fl_lower:
  assumes "0 < x" and "- 1022 < exponent x"
  shows "2 powi exponent x \<le> fl x"
proof -
  have "2 powi 52 * ulp x \<le> x"
    unfolding ulp_52 using exponent_lower [of x] assms by simp
  then have "of_int (2 ^ 52) \<le> x / ulp x"
    using ulp_pos [of x] by (simp add: pos_le_divide_eq)
  then have "2 ^ 52 \<le> rne (x / ulp x)"
    by (rule of_int_rne_ge)
  then have "(of_int (2 ^ 52) :: real) \<le> of_int (rne (x / ulp x))"
    by (simp only: of_int_le_iff)
  then have "2 powi 52 * ulp x \<le> fl x"
    using ulp_pos [of x] by (simp add: fl_def)
  then show ?thesis by (simp only: ulp_52)
qed

lemma fl_mono_pos:
  assumes "0 < x" and "x \<le> y"
  shows "fl x \<le> fl y"
proof (cases "exponent x = exponent y")
  case True
  then have u: "ulp x = ulp y" by (simp add: ulp_def)
  have "x / ulp y \<le> y / ulp y"
    using assms(2) ulp_pos [of y] by (intro divide_right_mono) simp_all
  then have "rne (x / ulp y) \<le> rne (y / ulp y)" by (rule rne_mono)
  then show ?thesis by (simp add: fl_def u)
next
  case False
  have "exponent x \<le> exponent y"
    using assms by (intro exponent_mono) simp_all
  with False have lt: "exponent x < exponent y" by simp
  then have big: "- 1022 < exponent y"
    using exponent_ge [of x] by linarith
  have "fl x \<le> 2 powi (exponent x + 1)"
    using assms(1) by (rule fl_upper)
  also have "\<dots> \<le> 2 powi exponent y"
    using lt by (intro power_int_increasing) simp_all
  also have "\<dots> \<le> fl y"
    using assms big by (intro fl_lower) simp_all
  finally show ?thesis .
qed

lemma fl_mono:
  assumes "x \<le> y"
  shows "fl x \<le> fl y"
proof -
  consider "0 < x" | "x \<le> 0" "0 \<le> y" | "y < 0" by linarith
  then show ?thesis
  proof cases
    case 1
    with assms show ?thesis by (intro fl_mono_pos)
  next
    case 2
    then have "fl x \<le> 0"
      using fl_nonneg [of "- x"] by (simp add: fl_minus)
    also have "0 \<le> fl y" using 2 by (intro fl_nonneg)
    finally show ?thesis .
  next
    case 3
    then have "fl (- y) \<le> fl (- x)"
      using assms by (intro fl_mono_pos) simp_all
    then show ?thesis by (simp add: fl_minus)
  qed
qed


subsection \<open>Exact values and evaluation\<close>

lemma fl_binade:
  assumes "2 powi e \<le> \<bar>x\<bar>" and "\<bar>x\<bar> < 2 powi (e + 1)" and "- 1022 \<le> e"
  shows "fl x = of_int (rne (x / 2 powi (e - 52))) * 2 powi (e - 52)"
  using exponent_eqI [OF assms] by (simp add: fl_def ulp_def)

lemma fl_subnormal:
  assumes "\<bar>x\<bar> < 2 powi (- 1022)"
  shows "fl x = of_int (rne (x / 2 powi (- 1074))) * 2 powi (- 1074)"
  using exponent_subnormal [OF assms] by (simp add: fl_def ulp_def)

lemma exponent_less:
  assumes "\<bar>x\<bar> < 2 powi n" and "- 1022 < n"
  shows "exponent x < n"
proof (rule ccontr)
  assume "\<not> exponent x < n"
  then have le: "n \<le> exponent x" by simp
  then have big: "- 1022 < exponent x" using assms(2) by linarith
  have "2 powi n \<le> (2 :: real) powi exponent x"
    using le by (intro power_int_increasing) simp_all
  with exponent_lower [OF big] assms(1) show False by linarith
qed

text \<open>A number with at most 53 significant bits, above the subnormal spacing, is a double.\<close>

lemma fl_exact:
  assumes "\<bar>m\<bar> < 2 ^ 53" and "- 1074 \<le> k"
  shows "fl (of_int m * 2 powi k) = of_int m * 2 powi k"
proof -
  define x :: real where "x = of_int m * 2 powi k"
  define d where "d = k - (exponent x - 52)"
  have "\<bar>x\<bar> = of_int \<bar>m\<bar> * 2 powi k"
    by (simp add: x_def abs_mult)
  also have "\<dots> < of_int (2 ^ 53) * 2 powi k"
    using assms(1) by (intro mult_strict_right_mono) simp_all
  also have "\<dots> = 2 powi (53 + k)"
    by (simp add: power_int_add)
  finally have "exponent x < 53 + k"
    using assms(2) by (intro exponent_less) simp_all
  then have d: "0 \<le> d" by (simp add: d_def)
  have k: "k = (exponent x - 52) + d" by (simp add: d_def)
  have "(2 :: real) powi k = 2 powi ((exponent x - 52) + d)"
    using k by simp
  also have "\<dots> = 2 powi (exponent x - 52) * 2 powi d"
    by (rule power_int_add) simp
  finally have pk: "(2 :: real) powi k = ulp x * 2 powi d"
    by (simp add: ulp_def)
  define u where "u = ulp x"
  have u: "0 < u" by (simp add: u_def)
  have "of_int m * 2 powi k = of_int m * (u * 2 powi d)"
    by (simp only: pk u_def)
  then have xeq: "x = of_int m * (u * 2 powi d)"
    by (simp only: x_def [symmetric])
  have pd: "(2 :: real) powi d = of_int (2 ^ nat d)"
    using d by (simp add: power_int_def)
  have "x / u = of_int m * 2 powi d"
    using u by (simp add: xeq)
  also have "\<dots> = of_int (m * 2 ^ nat d)"
    by (simp add: pd)
  finally have "rne (x / u) = m * 2 ^ nat d"
    by (simp only: rne_of_int)
  then have "fl x = of_int (m * 2 ^ nat d) * u"
    by (simp add: fl_def u_def)
  also have "\<dots> = of_int m * (u * 2 powi d)"
    by (simp add: pd)
  also have "\<dots> = x"
    by (simp only: xeq)
  finally show ?thesis by (simp only: x_def)
qed

lemma fl_of_int:
  assumes "\<bar>n\<bar> < 2 ^ 53"
  shows "fl (of_int n) = of_int n"
  using fl_exact [of n 0] assms by simp

lemma fl_numeral [simp]: "numeral w < (2 ^ 53 :: int) \<Longrightarrow> fl (numeral w) = numeral w"
  using fl_of_int [of "numeral w"] by simp

lemma fl_one [simp]: "fl 1 = 1"
  using fl_of_int [of 1] by simp


lemma fl_pos:
  assumes "2 powi (- 1074) \<le> x"
  shows "2 powi (- 1074) \<le> fl x"
proof -
  have "fl (of_int 1 * 2 powi (- 1074)) = of_int 1 * 2 powi (- 1074)"
    by (intro fl_exact) simp_all
  then have "fl (2 powi (- 1074)) = 2 powi (- 1074)" by simp
  then show ?thesis using fl_mono [OF assms] by simp
qed

subsection \<open>Rounding\<close>

lemma huge_pos: "0 < huge"
  by (simp add: huge_def)

lemma huge_big: "2 ^ 53 < huge"
  by (simp add: huge_def)

lemma round_number_Fin:
  assumes "\<bar>fl x\<bar> < huge"
  shows "round_number x = Fin (fl x)"
  using assms by (auto simp: round_number_def)

lemma round_number_of_int:
  assumes "\<bar>n\<bar> < 2 ^ 53"
  shows "round_number (of_int n) = Fin (of_int n)"
proof -
  have "\<bar>real_of_int n\<bar> < 2 ^ 53"
    using assms by (metis of_int_abs of_int_less_numeral_power_cancel_iff)
  then have "\<bar>real_of_int n\<bar> < huge" using huge_big by linarith
  then show ?thesis
    using fl_of_int [OF assms] by (simp add: round_number_Fin)
qed

lemma round_number_0 [simp]: "round_number 0 = Fin 0"
  using round_number_of_int [of 0] by simp

lemma round_number_1 [simp]: "round_number 1 = Fin 1"
  using round_number_of_int [of 1] by simp

lemma round_number_numeral [simp]:
  "numeral w < (2 ^ 53 :: int) \<Longrightarrow> round_number (numeral w) = Fin (numeral w)"
  using round_number_of_int [of "numeral w"] by simp

lemma round_number_neg_numeral [simp]:
  "numeral w < (2 ^ 53 :: int) \<Longrightarrow> round_number (- numeral w) = Fin (- numeral w)"
  using round_number_of_int [of "- numeral w"] by simp

lemma round_number_not_NaN [simp]: "round_number x \<noteq> NaN"
  by (simp add: round_number_def)


lemma round_number_nonneg:
  assumes "0 \<le> x"
  shows "round_number x = PInf \<or> (\<exists>y. round_number x = Fin y \<and> 0 \<le> y)"
proof -
  have "0 \<le> fl x" using assms by (rule fl_nonneg)
  then have "\<not> fl x \<le> - huge" using huge_pos by linarith
  with \<open>0 \<le> fl x\<close> show ?thesis by (simp add: round_number_def)
qed


lemma round_number_pos:
  assumes "2 powi (- 1074) \<le> x"
  shows "round_number x = PInf \<or> (\<exists>y. round_number x = Fin y \<and> 0 < y)"
proof -
  have "(0 :: real) < 2 powi (- 1074)" by simp
  then have pos: "0 < fl x" using fl_pos [OF assms] by linarith
  then have "\<not> fl x \<le> - huge" using huge_pos by linarith
  with pos show ?thesis by (simp add: round_number_def)
qed

lemma round_number_neg:
  assumes "x \<le> - (2 powi (- 1074))"
  shows "round_number x = NInf \<or> (\<exists>y. round_number x = Fin y \<and> y < 0)"
proof -
  have "(0 :: real) < 2 powi (- 1074)" by simp
  moreover have "2 powi (- 1074) \<le> fl (- x)" using assms by (intro fl_pos) simp
  ultimately have neg: "fl x < 0" by (simp add: fl_minus)
  then have "\<not> huge \<le> fl x" using huge_pos by linarith
  with neg show ?thesis by (simp add: round_number_def)
qed

text \<open>Evaluation: a value in a given binade.\<close>

lemma round_number_binade:
  assumes "2 powi e \<le> \<bar>x\<bar>" and "\<bar>x\<bar> < 2 powi (e + 1)" and "- 1022 \<le> e" and "e < 1023"
    and "y = of_int (rne (x / 2 powi (e - 52))) * 2 powi (e - 52)"
  shows "round_number x = Fin y"
proof -
  have y: "fl x = y"
    using fl_binade [OF assms(1-3)] assms(5) by simp
  have "fl \<bar>x\<bar> \<le> 2 powi (exponent \<bar>x\<bar> + 1)"
    using assms(1) zero_less_power_int [of "2 :: real" e] by (intro fl_upper) linarith
  moreover have "exponent \<bar>x\<bar> = e"
    using assms(1-3) by (intro exponent_eqI) simp_all
  moreover have "(2 :: real) powi (e + 1) < 2 powi 1024"
    using assms(4) by (intro power_int_strict_increasing) simp_all
  ultimately have "fl \<bar>x\<bar> < huge" by (simp add: huge_def)
  moreover have "\<bar>fl x\<bar> = fl \<bar>x\<bar>"
    using fl_nonneg [of x] fl_nonneg [of "- x"] by (cases "0 \<le> x") (simp_all add: fl_minus)
  ultimately show ?thesis
    using round_number_Fin [of x] y by simp
qed

lemma literal_1e9: "round_number (1 / 10 ^ 9) = Fin (4835703278458517 / 2 ^ 82)"
  by (rule round_number_binade [of "- 30"]) (simp_all add: rne_def)






section \<open>Properties of the feature encoder\<close>

lemma extractFeatures_length: "length (extractFeatures pa) = 14"
  by (simp add: extractFeatures_def posMap_def Let_def)

text \<open>
  Claim C1. The feature encoder is said to return a vector of length 17 for every
  attribute record. The array literal of \<open>extractFeatures\<close> has six numeric entries,
  three foot flags and five position flags: on the request of the end-to-end example
  the vector has 14 entries, not 17.
\<close>

theorem extractFeatures_example:
  "extractFeatures example_attrs =
     [3 / 5, 1 / 2, 3 / 5, 3 / 5, 3 / 5, 3 / 5, 1, 0, 0, 0, 1, 0, 0, 0] \<and>
   length (extractFeatures example_attrs) = 14 \<and>
   length (extractFeatures example_attrs) \<noteq> 17"
  by (simp add: extractFeatures_def example_attrs_def posMap_def param_default_def)

text \<open>
  Claim C8. For numbers \<open>height_cm\<close> and \<open>age\<close>, the first two entries of the feature
  vector are \<open>(height_cm - 150) / 50\<close> and \<open>(age - 12) / 20\<close> clamped into \<open>[0, 1]\<close>: both
  always lie in \<open>[0, 1]\<close>; for a height in \<open>[150, 200]\<close> and an age in \<open>[12, 32]\<close> they are
  the quotient itself; below the range they are exactly 0 and above it exactly 1.
\<close>

theorem extractFeatures_height_age:
  "0 \<le> extractFeatures pa ! 0 \<and> extractFeatures pa ! 0 \<le> 1 \<and>
   0 \<le> extractFeatures pa ! 1 \<and> extractFeatures pa ! 1 \<le> 1 \<and>
   (150 \<le> height_cm pa \<and> height_cm pa \<le> 200 \<longrightarrow>
      extractFeatures pa ! 0 = (height_cm pa - 150) / 50) \<and>
   (height_cm pa \<le> 150 \<longrightarrow> extractFeatures pa ! 0 = 0) \<and>
   (200 \<le> height_cm pa \<longrightarrow> extractFeatures pa ! 0 = 1) \<and>
   (12 \<le> age pa \<and> age pa \<le> 32 \<longrightarrow>
      extractFeatures pa ! 1 = (age pa - 12) / 20) \<and>
   (age pa \<le> 12 \<longrightarrow> extractFeatures pa ! 1 = 0) \<and>
   (32 \<le> age pa \<longrightarrow> extractFeatures pa ! 1 = 1)"
  by (simp add: extractFeatures_def Let_def min_def max_def)

theorem extractFeatures_height_age_witness:
  "extractFeatures example_attrs ! 0 = 3 / 5 \<and>
   extractFeatures example_attrs ! 1 = 1 / 2 \<and>
   extractFeatures (example_attrs\<lparr>height_cm := 140, age := 40\<rparr>) ! 0 = 0 \<and>
   extractFeatures (example_attrs\<lparr>height_cm := 140, age := 40\<rparr>) ! 1 = 1 \<and>
   extractFeatures (example_attrs\<lparr>height_cm := 210, age := 10\<rparr>) ! 0 = 1 \<and>
   extractFeatures (example_attrs\<lparr>height_cm := 210, age := 10\<rparr>) ! 1 = 0"
  using extractFeatures_height_age [of example_attrs]
    extractFeatures_height_age [of "example_attrs\<lparr>height_cm := 140, age := 40\<rparr>"]
    extractFeatures_height_age [of "example_attrs\<lparr>height_cm := 210, age := 10\<rparr>"]
  by (simp add: example_attrs_def)

text \<open>
  Claim C9. The foot flags are the entries 6, 7 and 8 of the feature vector. When
  \<open>dominant_foot\<close> is the string \<open>right\<close>, \<open>left\<close> or \<open>two-footed\<close>, the flag of that string
  is 1 and the two others are 0, so exactly one flag is 1; for any other value,
  of any type, the three flags are 0. The encoder is a total function: it returns
  a vector in every case.
\<close>

theorem extractFeatures_foot_flags:
  "(dominant_foot pa = JStr ''right'' \<longrightarrow>
      map ((!) (extractFeatures pa)) [6, 7, 8] = [1, 0, 0]) \<and>
   (dominant_foot pa = JStr ''left'' \<longrightarrow>
      map ((!) (extractFeatures pa)) [6, 7, 8] = [0, 1, 0]) \<and>
   (dominant_foot pa = JStr ''two-footed'' \<longrightarrow>
      map ((!) (extractFeatures pa)) [6, 7, 8] = [0, 0, 1]) \<and>
   (dominant_foot pa \<in> {JStr ''right'', JStr ''left'', JStr ''two-footed''} \<longrightarrow>
      length (filter (\<lambda>x. x = 1) (map ((!) (extractFeatures pa)) [6, 7, 8])) = 1) \<and>
   (dominant_foot pa \<notin> {JStr ''right'', JStr ''left'', JStr ''two-footed''} \<longrightarrow>
      map ((!) (extractFeatures pa)) [6, 7, 8] = [0, 0, 0])"
  by (simp add: extractFeatures_def Let_def)

theorem extractFeatures_foot_flags_witness:
  "map ((!) (extractFeatures example_attrs)) [6, 7, 8] = [1, 0, 0] \<and>
   map ((!) (extractFeatures (example_attrs\<lparr>dominant_foot := JStr ''left''\<rparr>))) [6, 7, 8] =
     [0, 1, 0] \<and>
   map ((!) (extractFeatures (example_attrs\<lparr>dominant_foot := JStr ''two-footed''\<rparr>))) [6, 7, 8] =
     [0, 0, 1] \<and>
   map ((!) (extractFeatures (example_attrs\<lparr>dominant_foot := JStr ''Right''\<rparr>))) [6, 7, 8] =
     [0, 0, 0] \<and>
   map ((!) (extractFeatures (example_attrs\<lparr>dominant_foot := JUndefined\<rparr>))) [6, 7, 8] =
     [0, 0, 0]"
  using extractFeatures_foot_flags [of example_attrs]
    extractFeatures_foot_flags [of "example_attrs\<lparr>dominant_foot := JStr ''left''\<rparr>"]
    extractFeatures_foot_flags [of "example_attrs\<lparr>dominant_foot := JStr ''two-footed''\<rparr>"]
    extractFeatures_foot_flags [of "example_attrs\<lparr>dominant_foot := JStr ''Right''\<rparr>"]
    extractFeatures_foot_flags [of "example_attrs\<lparr>dominant_foot := JUndefined\<rparr>"]
  by (simp add: example_attrs_def)

section \<open>Properties of the metric synthesizer\<close>

lemma Math_round_int: "Math_round x \<in> \<int>"
  by (simp add: Math_round_def)

lemma Math_round_nearest: "\<bar>Math_round x - x\<bar> \<le> 1 / 2"
  unfolding Math_round_def by linarith

lemma Math_round_range:
  assumes "of_int lo \<le> x" and "x \<le> of_int hi"
  shows "of_int lo \<le> Math_round x \<and> Math_round x \<le> of_int hi"
  using assms unfolding Math_round_def by (simp; linarith)

text \<open>Rounding to a double moves a number by at most half the spacing of its binade.\<close>

lemma fl_error: "\<bar>fl x - x\<bar> \<le> ulp x / 2"
proof -
  have u: "0 < ulp x" by simp
  have "ulp x \<noteq> 0" using ulp_pos [of x] by linarith
  then have "fl x - x = (of_int (rne (x / ulp x)) - x / ulp x) * ulp x"
    by (simp add: fl_def left_diff_distrib)
  then have "\<bar>fl x - x\<bar> = \<bar>of_int (rne (x / ulp x)) - x / ulp x\<bar> * ulp x"
    using u by (simp add: abs_mult)
  also have "\<dots> \<le> 1 / 2 * ulp x"
    using rne_near [of "x / ulp x"] u by (intro mult_right_mono) simp_all
  finally show ?thesis by simp
qed

lemma fl_error_256:
  assumes "\<bar>x\<bar> < 256"
  shows "\<bar>fl x - x\<bar> \<le> 1 / 2 ^ 46"
proof -
  have "\<bar>x\<bar> < 2 powi 8" using assms by simp
  then have "exponent x < 8" by (rule exponent_less) simp
  then have "(2 :: real) powi (exponent x - 52) \<le> 2 powi (- 45)"
    by (intro power_int_increasing) simp_all
  then have "ulp x \<le> 1 / 2 ^ 45"
    by (simp add: ulp_def power_int_minus divide_simps)
  with fl_error [of x] show ?thesis by simp
qed

lemma fl_range:
  assumes "of_int lo \<le> x" and "x \<le> of_int hi" and "\<bar>lo\<bar> < 2 ^ 53" and "\<bar>hi\<bar> < 2 ^ 53"
  shows "of_int lo \<le> fl x \<and> fl x \<le> of_int hi"
  using fl_mono [OF assms(1)] fl_mono [OF assms(2)] fl_of_int [OF assms(3)] fl_of_int [OF assms(4)]
  by simp

text \<open>
  One metric: \<open>Math.round(lo + Math.random() * w)\<close> for integers \<open>lo\<close> and \<open>w\<close> with
  \<open>lo + w\<close> below 256.
\<close>

lemma metric_range:
  fixes lo w :: int
  assumes "0 \<le> r" and "r < 1" and "0 \<le> lo" and "0 \<le> w" and "lo + w < 256"
  defines "x \<equiv> fl (of_int lo + fl (r * of_int w))"
  shows "Math_round x \<in> \<int>"
    and "of_int lo \<le> Math_round x" and "Math_round x \<le> of_int (lo + w)"
    and "\<bar>Math_round x - x\<bar> \<le> 1 / 2"
    and "\<bar>x - (of_int lo + r * of_int w)\<bar> \<le> 1 / 2 ^ 45"
proof -
  have small: "\<bar>0 :: int\<bar> < 2 ^ 53" "\<bar>w\<bar> < 2 ^ 53" "\<bar>lo\<bar> < 2 ^ 53" "\<bar>lo + w\<bar> < 2 ^ 53"
    using assms(3-5) by simp_all
  have rw: "of_int 0 \<le> r * of_int w" "r * of_int w \<le> of_int w"
    using assms(1,2,4) by (simp_all add: mult_left_le_one_le)
  then have p: "0 \<le> fl (r * of_int w)" "fl (r * of_int w) \<le> of_int w"
    using fl_range [OF rw small(1,2)] by simp_all
  then have s: "of_int lo \<le> of_int lo + fl (r * of_int w)"
    "of_int lo + fl (r * of_int w) \<le> of_int (lo + w)"
    by simp_all
  have xr: "of_int lo \<le> x \<and> x \<le> of_int (lo + w)"
    unfolding x_def using s small(3,4) by (rule fl_range)
  show "Math_round x \<in> \<int>" by (rule Math_round_int)
  show "of_int lo \<le> Math_round x" "Math_round x \<le> of_int (lo + w)"
    using Math_round_range [of lo x "lo + w"] xr by simp_all
  show "\<bar>Math_round x - x\<bar> \<le> 1 / 2" by (rule Math_round_nearest)
  have "real_of_int (lo + w) < 256" using assms(5) by linarith
  moreover have "real_of_int w \<le> of_int (lo + w)" "(0 :: real) \<le> of_int lo"
    using assms(3) by simp_all
  ultimately have b: "\<bar>r * of_int w\<bar> < 256" "\<bar>of_int lo + fl (r * of_int w)\<bar> < 256"
    using rw s by linarith+
  have "\<bar>fl (r * of_int w) - r * of_int w\<bar> \<le> 1 / 2 ^ 46"
    using b(1) by (rule fl_error_256)
  moreover have "\<bar>x - (of_int lo + fl (r * of_int w))\<bar> \<le> 1 / 2 ^ 46"
    unfolding x_def using b(2) by (rule fl_error_256)
  moreover have "1 / 2 ^ 46 + 1 / 2 ^ 46 = (1 / 2 ^ 45 :: real)"
    by simp
  ultimately show "\<bar>x - (of_int lo + r * of_int w)\<bar> \<le> 1 / 2 ^ 45"
    by linarith
qed

text \<open>
  Claim C10. Whatever the four draws in \<open>[0, 1)\<close>, the metric synthesizer returns four
  integers, knee flexion in \<open>[30, 90]\<close>, body lean in \<open>[5, 30]\<close>, sprint tempo in
  \<open>[140, 200]\<close> and touches in \<open>[10, 35]\<close>. Each is at distance at most one half from
  the double that the sum \<open>lo + draw * width\<close> is computed to, and that double is within
  \<open>2 ^ -45\<close> of the exact sum.
\<close>

theorem analyzeVideoMock_ranges:
  assumes "0 \<le> r1" "r1 < 1" "0 \<le> r2" "r2 < 1" "0 \<le> r3" "r3 < 1" "0 \<le> r4" "r4 < 1"
    and m: "m = analyzeVideoMock r1 r2 r3 r4"
  shows "(kneeFlex m \<in> \<int> \<and> 30 \<le> kneeFlex m \<and> kneeFlex m \<le> 90 \<and>
            \<bar>kneeFlex m - fl (30 + fl (r1 * 60))\<bar> \<le> 1 / 2 \<and>
            \<bar>fl (30 + fl (r1 * 60)) - (30 + r1 * 60)\<bar> \<le> 1 / 2 ^ 45) \<and>
         (bodyLean m \<in> \<int> \<and> 5 \<le> bodyLean m \<and> bodyLean m \<le> 30 \<and>
            \<bar>bodyLean m - fl (5 + fl (r2 * 25))\<bar> \<le> 1 / 2 \<and>
            \<bar>fl (5 + fl (r2 * 25)) - (5 + r2 * 25)\<bar> \<le> 1 / 2 ^ 45) \<and>
         (sprintTempo m \<in> \<int> \<and> 140 \<le> sprintTempo m \<and> sprintTempo m \<le> 200 \<and>
            \<bar>sprintTempo m - fl (140 + fl (r3 * 60))\<bar> \<le> 1 / 2 \<and>
            \<bar>fl (140 + fl (r3 * 60)) - (140 + r3 * 60)\<bar> \<le> 1 / 2 ^ 45) \<and>
         (touches m \<in> \<int> \<and> 10 \<le> touches m \<and> touches m \<le> 35 \<and>
            \<bar>touches m - fl (10 + fl (r4 * 25))\<bar> \<le> 1 / 2 \<and>
            \<bar>fl (10 + fl (r4 * 25)) - (10 + r4 * 25)\<bar> \<le> 1 / 2 ^ 45)"
proof -
  have k: "kneeFlex m \<in> \<int> \<and> 30 \<le> kneeFlex m \<and> kneeFlex m \<le> 90 \<and>
            \<bar>kneeFlex m - fl (30 + fl (r1 * 60))\<bar> \<le> 1 / 2 \<and>
            \<bar>fl (30 + fl (r1 * 60)) - (30 + r1 * 60)\<bar> \<le> 1 / 2 ^ 45"
    using metric_range [of r1 30 60] assms(1,2) by (simp add: m analyzeVideoMock_def)
  have b: "bodyLean m \<in> \<int> \<and> 5 \<le> bodyLean m \<and> bodyLean m \<le> 30 \<and>
            \<bar>bodyLean m - fl (5 + fl (r2 * 25))\<bar> \<le> 1 / 2 \<and>
            \<bar>fl (5 + fl (r2 * 25)) - (5 + r2 * 25)\<bar> \<le> 1 / 2 ^ 45"
    using metric_range [of r2 5 25] assms(3,4) by (simp add: m analyzeVideoMock_def)
  have s: "sprintTempo m \<in> \<int> \<and> 140 \<le> sprintTempo m \<and> sprintTempo m \<le> 200 \<and>
            \<bar>sprintTempo m - fl (140 + fl (r3 * 60))\<bar> \<le> 1 / 2 \<and>
            \<bar>fl (140 + fl (r3 * 60)) - (140 + r3 * 60)\<bar> \<le> 1 / 2 ^ 45"
    using metric_range [of r3 140 60] assms(5,6) by (simp add: m analyzeVideoMock_def)
  have t: "touches m \<in> \<int> \<and> 10 \<le> touches m \<and> touches m \<le> 35 \<and>
            \<bar>touches m - fl (10 + fl (r4 * 25))\<bar> \<le> 1 / 2 \<and>
            \<bar>fl (10 + fl (r4 * 25)) - (10 + r4 * 25)\<bar> \<le> 1 / 2 ^ 45"
    using metric_range [of r4 10 25] assms(7,8) by (simp add: m analyzeVideoMock_def)
  show ?thesis
    using k b s t by (intro conjI) blast+
qed

text \<open>
  The draws of the example: one at which the product rounds up to \<open>26.5\<close>, so that the
  knee flexion is 57 where the exact sum is just below \<open>56.5\<close>; one half; the greatest
  double below 1, at which the sprint tempo reaches 200; and 0.
\<close>

lemma example_draws:
  "fl (1989089835421969 / 2 ^ 52 * 60) = 53 / 2" "fl (30 + 53 / 2) = 113 / 2"
  "fl (1 / 2 * 25) = 25 / 2" "fl (5 + 25 / 2) = 35 / 2"
  "fl ((1 - 1 / 2 ^ 53) * 60) = 60 - 1 / 2 ^ 47" "fl (140 + (60 - 1 / 2 ^ 47)) = 200"
  "fl (0 * 25) = 0" "fl (10 + 0) = 10"
proof -
  show "fl (1989089835421969 / 2 ^ 52 * 60) = 53 / 2"
    using fl_binade [of 4 "1989089835421969 / 2 ^ 52 * 60"] by (simp add: rne_def)
  show "fl (30 + 53 / 2) = 113 / 2"
    using fl_binade [of 5 "30 + 53 / 2"] by (simp add: rne_def)
  show "fl (1 / 2 * 25) = 25 / 2"
    using fl_binade [of 3 "1 / 2 * 25"] by (simp add: rne_def)
  show "fl (5 + 25 / 2) = 35 / 2"
    using fl_binade [of 4 "5 + 25 / 2"] by (simp add: rne_def)
  show "fl ((1 - 1 / 2 ^ 53) * 60) = 60 - 1 / 2 ^ 47"
    using fl_binade [of 5 "(1 - 1 / 2 ^ 53) * 60"] by (simp add: rne_def)
  show "fl (140 + (60 - 1 / 2 ^ 47)) = 200"
    using fl_binade [of 7 "140 + (60 - 1 / 2 ^ 47)"] by (simp add: rne_def)
  show "fl (0 * 25) = 0" "fl (10 + 0) = 10"
    by simp_all
qed

theorem analyzeVideoMock_ranges_witness:
  "analyzeVideoMock (1989089835421969 / 2 ^ 52) (1 / 2) (1 - 1 / 2 ^ 53) 0 =
     \<lparr>kneeFlex = 57, bodyLean = 18, sprintTempo = 200, touches = 10\<rparr> \<and>
   30 \<le> kneeFlex (analyzeVideoMock (1989089835421969 / 2 ^ 52) (1 / 2) (1 - 1 / 2 ^ 53) 0) \<and>
   sprintTempo (analyzeVideoMock (1989089835421969 / 2 ^ 52) (1 / 2) (1 - 1 / 2 ^ 53) 0) \<le> 200 \<and>
   30 + 1989089835421969 / 2 ^ 52 * 60 < (113 / 2 :: real)"
proof -
  have result: "analyzeVideoMock (1989089835421969 / 2 ^ 52) (1 / 2) (1 - 1 / 2 ^ 53) 0 =
     \<lparr>kneeFlex = 57, bodyLean = 18, sprintTempo = 200, touches = 10\<rparr>"
    unfolding analyzeVideoMock_def example_draws by (simp add: Math_round_def)
  have "(0 :: real) \<le> 1989089835421969 / 2 ^ 52" "(1989089835421969 / 2 ^ 52 :: real) < 1"
    "(0 :: real) \<le> 1 / 2" "(1 / 2 :: real) < 1"
    "(0 :: real) \<le> 1 - 1 / 2 ^ 53" "(1 - 1 / 2 ^ 53 :: real) < 1" "(0 :: real) \<le> 0" "(0 :: real) < 1"
    by simp_all
  then have "30 \<le> kneeFlex (analyzeVideoMock (1989089835421969 / 2 ^ 52) (1 / 2) (1 - 1 / 2 ^ 53) 0) \<and>
     sprintTempo (analyzeVideoMock (1989089835421969 / 2 ^ 52) (1 / 2) (1 - 1 / 2 ^ 53) 0) \<le> 200"
    using analyzeVideoMock_ranges [OF _ _ _ _ _ _ _ _ refl,
        of "1989089835421969 / 2 ^ 52" "1 / 2" "1 - 1 / 2 ^ 53" 0]
    by blast
  moreover have "30 + 1989089835421969 / 2 ^ 52 * 60 < (113 / 2 :: real)"
    by simp
  ultimately show ?thesis
    using result by blast
qed

section \<open>Properties of the suggestion generator\<close>

lemma fallback_distinct:
  "suggestion_fallback \<noteq> suggestion_knee" "suggestion_fallback \<noteq> suggestion_lean"
  "suggestion_fallback \<noteq> suggestion_tempo" "suggestion_fallback \<noteq> suggestion_touches"
  by (simp_all add: suggestion_fallback_def suggestion_knee_def suggestion_lean_def
      suggestion_tempo_def suggestion_touches_def)

text \<open>
  Claim C6. For every metrics value the suggestion list is the messages of the rules
  that fire, among knee flexion below 50, body lean below 10, sprint tempo below 160
  and touches below 15, in that order, one message for each, or the fallback message
  alone when none fires. The list is never empty, it contains the fallback message
  exactly when no threshold is met, and then it is that single entry.
\<close>

theorem suggestionsFromMetrics_rules:
  "suggestionsFromMetrics m = (if fired m = [] then [suggestion_fallback] else fired m) \<and>
   suggestionsFromMetrics m \<noteq> [] \<and>
   (suggestion_fallback \<in> set (suggestionsFromMetrics m) \<longleftrightarrow>
      \<not> kneeFlex m < 50 \<and> \<not> bodyLean m < 10 \<and> \<not> sprintTempo m < 160 \<and> \<not> touches m < 15) \<and>
   (suggestionsFromMetrics m = [suggestion_fallback] \<longleftrightarrow>
      \<not> kneeFlex m < 50 \<and> \<not> bodyLean m < 10 \<and> \<not> sprintTempo m < 160 \<and> \<not> touches m < 15)"
  using fallback_distinct
  by (simp add: suggestionsFromMetrics_def fired_def rules_def push_def Let_def)

section \<open>Properties of the vector composer\<close>

text \<open>
  Claim C7. The player vector is the feature vector followed by four entries, in
  this order: knee flexion over 120, body lean over 45, sprint tempo over 220 and
  touches over 60, each replaced by 1 when the quotient exceeds 1.
\<close>

theorem playerVec_layout:
  "playerVec feats m =
     feats @ [min (kneeFlex m / 120) 1, min (bodyLean m / 45) 1,
              min (sprintTempo m / 220) 1, min (touches m / 60) 1] \<and>
   length (playerVec feats m) = length feats + 4 \<and>
   take (length feats) (playerVec feats m) = feats \<and>
   playerVec feats m ! (length feats) = (if kneeFlex m \<le> 120 then kneeFlex m / 120 else 1) \<and>
   playerVec feats m ! (length feats + 1) = (if bodyLean m \<le> 45 then bodyLean m / 45 else 1) \<and>
   playerVec feats m ! (length feats + 2) =
     (if sprintTempo m \<le> 220 then sprintTempo m / 220 else 1) \<and>
   playerVec feats m ! (length feats + 3) = (if touches m \<le> 60 then touches m / 60 else 1)"
  by (simp add: playerVec_def metricVec_def nth_append min_def)

lemma playerVec_length: "length (playerVec (extractFeatures pa) m) = 18"
  by (simp add: playerVec_def metricVec_def extractFeatures_length)

text \<open>
  Claim C2. The player vector is said to have length 21, the length of the roster
  vectors. It is the 14 entries of the feature vector followed by the four
  normalised metrics: on the request of the end-to-end example it has 18 entries,
  not 21.
\<close>

theorem playerVec_example:
  "playerVec (extractFeatures example_attrs) example_metrics =
     [3 / 5, 1 / 2, 3 / 5, 3 / 5, 3 / 5, 3 / 5, 1, 0, 0, 0, 1, 0, 0, 0,
      1 / 2, 2 / 5, 17 / 22, 11 / 30] \<and>
   length (playerVec (extractFeatures example_attrs) example_metrics) = 18 \<and>
   length (playerVec (extractFeatures example_attrs) example_metrics) \<noteq> 21"
  by (simp add: playerVec_def metricVec_def extractFeatures_def example_attrs_def
      example_metrics_def posMap_def param_default_def)

section \<open>Properties of the cosine similarity\<close>

lemma js_add_NaN [simp]: "js_add x NaN = NaN"
  by (cases x) simp_all

lemma js_mul_NaN [simp]: "js_mul x NaN = NaN"
  by (cases x) simp_all

lemma js_div_NaN [simp]: "js_div x NaN = NaN"
  by (cases x) simp_all










text \<open>What \<open>cosineSim\<close> returns is a double.\<close>

lemma on_grid_zero [simp]: "on_grid (Fin 0)"
  unfolding on_grid.simps by (rule exI [of _ 0]) simp



text \<open>The divisor of \<open>cosineSim\<close> is never zero.\<close>

lemma Math_sqrt_cases:
  "Math_sqrt u = NaN \<or> Math_sqrt u = PInf \<or> (\<exists>s. Math_sqrt u = Fin s \<and> 0 \<le> s)"
  by (cases u) (simp_all add: fl_nonneg)

lemma js_mul_nonneg:
  assumes "x = NaN \<or> x = PInf \<or> (\<exists>s. x = Fin s \<and> 0 \<le> s)"
    and "y = NaN \<or> y = PInf \<or> (\<exists>s. y = Fin s \<and> 0 \<le> s)"
  shows "js_mul x y = NaN \<or> js_mul x y = PInf \<or> (\<exists>s. js_mul x y = Fin s \<and> 0 \<le> s)"
proof -
  have fin: "round_number (s * t) = PInf \<or> (\<exists>r. round_number (s * t) = Fin r \<and> 0 \<le> r)"
    if "0 \<le> s" "0 \<le> t" for s t
    using that by (intro round_number_nonneg) simp
  show ?thesis
    using assms fin by (elim disjE exE conjE) auto
qed

lemma cosineSim_denom:
  "js_add (js_mul (Math_sqrt u) (Math_sqrt v)) (round_number (1 / 10 ^ 9)) \<noteq> Fin 0"
proof -
  let ?c = "4835703278458517 / 2 ^ 82 :: real"
  have c: "2 powi (- 1074) \<le> ?c" by simp
  have "js_mul (Math_sqrt u) (Math_sqrt v) = NaN \<or> js_mul (Math_sqrt u) (Math_sqrt v) = PInf \<or>
        (\<exists>s. js_mul (Math_sqrt u) (Math_sqrt v) = Fin s \<and> 0 \<le> s)"
    by (intro js_mul_nonneg Math_sqrt_cases)
  then consider "js_mul (Math_sqrt u) (Math_sqrt v) = NaN"
    | "js_mul (Math_sqrt u) (Math_sqrt v) = PInf"
    | s where "js_mul (Math_sqrt u) (Math_sqrt v) = Fin s" "0 \<le> s"
    by blast
  then show ?thesis
  proof cases
    case 1
    show ?thesis unfolding 1 literal_1e9 by simp
  next
    case 2
    show ?thesis unfolding 2 literal_1e9 by simp
  next
    case 3
    have "2 powi (- 1074) \<le> s + ?c" using c 3(2) by linarith
    then have "round_number (s + ?c) = PInf \<or> (\<exists>y. round_number (s + ?c) = Fin y \<and> 0 < y)"
      by (rule round_number_pos)
    then show ?thesis
      unfolding 3(1) literal_1e9 js_add.simps by auto
  qed
qed




section \<open>Properties of the similarity ranker\<close>






text \<open>The operator \<open><=\<close> orders the numbers other than \<open>NaN\<close>.\<close>

lemma js_le_refl: "x \<noteq> NaN \<Longrightarrow> js_le x x"
  by (cases x) simp_all
















lemma round_number_minus: "round_number (- x) = negate (round_number x)"
  using huge_pos by (auto simp: round_number_def fl_minus)

lemma round_number_m1 [simp]: "round_number (- 1) = Fin (- 1)"
  by (simp add: round_number_minus)













section \<open>Properties of the handler\<close>

lemmas json_eval = JSON_parse_def is_ws_def is_digit_def cons_token_def lex_number_def lex_sign_def
  lex_int_def lex_frac_def lex_exp_def pow10_def decimal_def digit_val_def prepend_def




text \<open>A conversion throws exactly where \<open>throws\<close> says, and what it throws is \<open>TypeError\<close>.\<close>

lemma ToNumber_cases:
  "(throws v \<and> ToNumber pf v = Inl TypeError) \<or> (\<not> throws v \<and> (\<exists>x. ToNumber pf v = Inr x))"
  by (cases v) (simp_all add: ToNumber_def)


lemma throws_default_value [simp]: "throws (default_value v (JNum x)) = throws v"
  by (simp add: default_value_def)

lemma extractFeatures_json_cases:
  "((arg = JNull \<or> arg = JUndefined \<or> throws (property arg ''height_cm'') \<or>
     throws (property arg ''age'')) \<and>
    extractFeatures_json pf arg = Inl TypeError) \<or>
   (\<not> (arg = JNull \<or> arg = JUndefined \<or> throws (property arg ''height_cm'') \<or>
        throws (property arg ''age'')) \<and>
    (\<exists>feats. extractFeatures_json pf arg = Inr feats \<and> length feats = 14 \<and>
       (list_ex throws feats \<longleftrightarrow>
          list_ex (\<lambda>k. throws (property arg k)) [''pace'', ''dribbling'', ''passing'', ''shooting''])))"
proof (cases "arg = JNull \<or> arg = JUndefined")
  case True
  then show ?thesis by (auto simp: extractFeatures_json_def)
next
  case False
  note arg = this
  show ?thesis
  proof (cases "throws (property arg ''height_cm'')")
    case True
    then have "ToNumber pf (property arg ''height_cm'') = Inl TypeError"
      using ToNumber_cases [of "property arg ''height_cm''" pf] by simp
    with arg True show ?thesis by (simp add: extractFeatures_json_def)
  next
    case False
    note h = this
    then obtain x where x: "ToNumber pf (property arg ''height_cm'') = Inr x"
      using ToNumber_cases [of "property arg ''height_cm''" pf] by auto
    show ?thesis
    proof (cases "throws (property arg ''age'')")
      case True
      then have "ToNumber pf (property arg ''age'') = Inl TypeError"
        using ToNumber_cases [of "property arg ''age''" pf] by simp
      with arg x True show ?thesis by (simp add: extractFeatures_json_def)
    next
      case False
      then obtain y where y: "ToNumber pf (property arg ''age'') = Inr y"
        using ToNumber_cases [of "property arg ''age''" pf] by auto
      have flags: "\<not> list_ex throws (map (\<lambda>p. JNum (f p)) ps)" for f :: "string \<Rightarrow> number" and ps
        by (induction ps) simp_all
      show ?thesis
        using arg h False x y flags by (simp add: extractFeatures_json_def Let_def posMap_def)
    qed
  qed
qed


lemma list_ex_numbers [simp]: "\<not> list_ex throws (map JNum xs)"
  by (induction xs) simp_all






text \<open>
  The request of the specification's end-to-end example, with an empty roster: the
  whole response and the session written.
\<close>

lemma example_request:
  \<open>JSON_parse ''{"height_cm":180,"dominant_foot":"right","position":"striker","age":22}'' =
     Inr (JObj [(''height_cm'', JNum (Fin 180)), (''dominant_foot'', JStr ''right''),
                (''position'', JStr ''striker''), (''age'', JNum (Fin 22))])\<close>
  by (simp add: json_eval)

lemma example_synthesis:
  "analyzeVideoMock (1 / 2) (1 / 2) (1 / 2) (1 / 2) =
     \<lparr>kneeFlex = 60, bodyLean = 18, sprintTempo = 170, touches = 23\<rparr>"
proof -
  have halves: "fl (1 / 2 * 60) = 30" "fl (30 + 30) = 60" "fl (140 + 30) = 170"
    "fl (10 + 25 / 2) = 45 / 2"
    using fl_binade [of 4 "10 + 25 / 2"] by (simp_all add: rne_def)
  show ?thesis
    unfolding analyzeVideoMock_def example_draws halves by (simp add: Math_round_def)
qed

lemma example_response:
  \<open>post_analyze example_platform [] Map.empty
     (Some ''{"height_cm":180,"dominant_foot":"right","position":"striker","age":22}'') =
   (\<lparr>status = 200,
     body = AnalysisBody ''3f2b8c1e''
              \<lparr>kneeFlex = 60, bodyLean = 18, sprintTempo = 170, touches = 23\<rparr>
              [suggestion_fallback] []\<rparr>,
    [''3f2b8c1e'' \<mapsto>
       \<lparr>session_id = ''3f2b8c1e'', created_at = ''2024-01-01T00:00:00.000Z'',
        attrs = JObj [(''height_cm'', JNum (Fin 180)), (''dominant_foot'', JStr ''right''),
                      (''position'', JStr ''striker''), (''age'', JNum (Fin 22))],
        metrics = \<lparr>kneeFlex = 60, bodyLean = 18, sprintTempo = 170, touches = 23\<rparr>,
        similar_players = []\<rparr>])\<close>
proof -
  let ?v = "JObj [(''height_cm'', JNum (Fin 180)), (''dominant_foot'', JStr ''right''),
                  (''position'', JStr ''striker''), (''age'', JNum (Fin 22))]"
  obtain feats where "extractFeatures_json example_platform ?v = Inr feats"
    using extractFeatures_json_cases [of ?v example_platform] by (auto simp: property_def)
  then show ?thesis
    by (simp add: post_analyze_def try_block_def example_request similar_def writeFileSync_def
        example_platform_def example_synthesis suggestionsFromMetrics_def push_def Let_def)
qed


end
